theory Spec2Isabelle
  imports Main "HOL-Library.AList"
begin

chapter \<open>The chat demo: user registry, socket server and client chat context\<close>

text \<open>
  The embedding follows three groups of source files:
  \<^item> the HTTP user registry (\<open>server.cjs\<close>, and the same routes in the socket server
    \<open>unnamed/part_000\<close>);
  \<^item> the socket.io event handlers of \<open>unnamed/part_000\<close>;
  \<^item> the React chat context (\<open>src/contexts/ChatContext.tsx\<close> and its localStorage-only
    variant \<open>unnamed/part_002\<close>).
  Mutable module state is passed explicitly. Readings of the clock and of the random
  generator are inputs of a handler. JavaScript numbers are modelled by \<open>nat\<close>/\<open>int\<close>: the
  counters and millisecond timestamps of this program stay far below \<open>2^53\<close>, where the
  two agree.
\<close>

section \<open>JavaScript helpers\<close>

text \<open>Template strings print a non-negative integer in decimal: \<^verbatim>\<open>`#${n}`\<close>.\<close>

definition digit_char :: "nat \<Rightarrow> char" where
  "digit_char d = char_of (48 + d)"

fun dec :: "nat \<Rightarrow> string" where
  "dec n = (if n < 10 then [digit_char n] else dec (n div 10) @ [digit_char (n mod 10)])"

declare dec.simps [simp del]

text \<open>Reading a decimal numeral back; only used to show that \<open>dec\<close> is injective.\<close>

definition digit_val :: "char \<Rightarrow> nat" where
  "digit_val c = of_char c - 48"

definition undec :: "string \<Rightarrow> nat" where
  "undec s = foldl (\<lambda>a c. 10 * a + digit_val c) 0 s"

text \<open>
  \<^verbatim>\<open>a || b\<close> on values that are a string or \<^verbatim>\<open>undefined\<close>: the empty string and
  \<^verbatim>\<open>undefined\<close> are falsy.
\<close>

definition falsy :: "string option \<Rightarrow> bool" where
  "falsy a = (a = None \<or> a = Some [])"

definition or_else :: "string option \<Rightarrow> string option \<Rightarrow> string option" where
  "or_else a b = (if falsy a then b else a)"

section \<open>The user registry (\<open>/api/users\<close>)\<close>

text \<open>
  \<^verbatim>\<open>let userData = { users: [], counter: 0 }\<close> in \<open>server.cjs\<close>; the fields
  \<^verbatim>\<open>users\<close> and \<^verbatim>\<open>counter\<close> of \<^verbatim>\<open>globalData\<close> in \<open>part_000\<close>.
  A request body is any JSON object; the fields the handler reads or writes are kept.
\<close>

record user_input =
  in_id :: "string option"
  in_name :: "string option"
  in_username :: "string option"
  in_createdAt :: "string option"

record user =
  u_id :: "string option"
  u_name :: "string option"
  u_username :: "string option"
  u_sequentialId :: nat
  u_displayUsername :: string
  u_createdAt :: "string option"

record registry =
  users :: "user list"
  counter :: nat

definition initial_registry :: registry where
  "initial_registry = \<lparr>users = [], counter = 0\<rparr>"

datatype http_error = Http nat string

text \<open>The handle \<^verbatim>\<open>`#${data.counter}`\<close>.\<close>

definition handle :: "nat \<Rightarrow> string" where
  "handle n = CHR ''#'' # dec n"

text \<open>
  \<^verbatim>\<open>app.post('/api/users', ...)\<close> of \<open>part_000\<close>. \<open>now\<close> is the decimal reading of
  \<^verbatim>\<open>Date.now()\<close> and \<open>stamp\<close> the reading of \<^verbatim>\<open>new Date().toISOString()\<close>.
\<close>

definition post_users :: "user_input \<Rightarrow> nat \<Rightarrow> string \<Rightarrow> registry \<Rightarrow> (http_error + user) \<times> registry" where
  "post_users body now stamp data =
     (case find (\<lambda>u. u_username u = in_username body) (users data) of
        Some existingUser \<Rightarrow> (Inl (Http 400 ''Username already exists''), data)
      | None \<Rightarrow>
          (let c = counter data + 1;
               u = \<lparr>u_id = or_else (in_id body) (Some (''user_'' @ dec now)),
                    u_name = in_name body,
                    u_username = in_username body,
                    u_sequentialId = c,
                    u_displayUsername = handle c,
                    u_createdAt = or_else (in_createdAt body) (Some stamp)\<rparr>
           in (Inr u, \<lparr>users = users data @ [u], counter = c\<rparr>)))"

text \<open>
  The same route in \<open>server.cjs\<close> goes through \<^verbatim>\<open>readData\<close>/\<^verbatim>\<open>writeData\<close>;
  \<^verbatim>\<open>writeData\<close> stores the object and returns \<^verbatim>\<open>true\<close>.
\<close>

definition writeData :: "registry \<Rightarrow> registry \<Rightarrow> bool \<times> registry" where
  "writeData data store = (True, data)"

definition post_users_cjs :: "user_input \<Rightarrow> nat \<Rightarrow> string \<Rightarrow> registry \<Rightarrow> (http_error + user) \<times> registry" where
  "post_users_cjs body now stamp store =
     (let data = store in
      case find (\<lambda>u. u_username u = in_username body) (users data) of
        Some existingUser \<Rightarrow> (Inl (Http 400 ''Username already exists''), store)
      | None \<Rightarrow>
          (let c = counter data + 1;
               u = \<lparr>u_id = or_else (in_id body) (Some (''user_'' @ dec now)),
                    u_name = in_name body,
                    u_username = in_username body,
                    u_sequentialId = c,
                    u_displayUsername = handle c,
                    u_createdAt = or_else (in_createdAt body) (Some stamp)\<rparr>;
               data' = \<lparr>users = users data @ [u], counter = c\<rparr>;
               (ok, store') = writeData data' data'
           in if ok then (Inr u, store')
              else (Inl (Http 500 ''Failed to save user''), store')))"

text \<open>\<^verbatim>\<open>app.delete('/api/users', ...)\<close>: both servers leave an empty list and counter 0.\<close>

definition delete_users :: "registry \<Rightarrow> string \<times> registry" where
  "delete_users data = (''All users deleted'', \<lparr>users = [], counter = 0\<rparr>)"

definition delete_users_cjs :: "registry \<Rightarrow> (http_error + string) \<times> registry" where
  "delete_users_cjs store =
     (let data = \<lparr>users = [], counter = 0\<rparr>;
          (ok, store') = writeData data store
      in if ok then (Inr ''All users deleted'', store')
         else (Inl (Http 500 ''Failed to delete users''), store'))"

text \<open>A run of registration requests, handled one after the other; the responses in order.\<close>

fun register_all :: "registry \<Rightarrow> (user_input \<times> nat \<times> string) list \<Rightarrow> (http_error + user) list \<times> registry" where
  "register_all data [] = ([], data)"
| "register_all data ((body, now, stamp) # reqs) =
     (let (r, data') = post_users body now stamp data;
          (rs, data'') = register_all data' reqs
      in (r # rs, data''))"

text \<open>The users of the successful responses, in order of completion.\<close>

fun registered :: "(http_error + user) list \<Rightarrow> user list" where
  "registered [] = []"
| "registered (Inl e # rs) = registered rs"
| "registered (Inr u # rs) = u # registered rs"

section \<open>The socket server (\<open>unnamed/part_000\<close>)\<close>

type_synonym user_id = string
type_synonym socket_id = string
type_synonym room = string

text \<open>The user object a client sends with \<^verbatim>\<open>user-login\<close>, \<^verbatim>\<open>heartbeat\<close> and as \<^verbatim>\<open>senderData\<close>.\<close>

record userData =
  ud_id :: user_id
  ud_name :: string
  ud_username :: "string option"
  ud_displayUsername :: "string option"
  ud_avatar :: "string option"

record online_entry =
  oe_socketId :: socket_id
  oe_userData :: userData
  oe_lastSeen :: nat

datatype request_status = Pending | Accepted | Rejected

record friendRequest =
  fr_id :: string
  fr_senderId :: user_id
  fr_receiverId :: user_id
  fr_senderName :: string
  fr_senderUsername :: "string option"
  fr_senderAvatar :: "string option"
  fr_timestamp :: string
  fr_status :: request_status

datatype message_type = Text | Image | File

record message =
  msg_id :: string
  msg_senderId :: user_id
  msg_receiverId :: user_id
  msg_content :: string
  msg_timestamp :: string
  msg_type :: message_type
  msg_read :: bool

text \<open>A conversation as the server's \<^verbatim>\<open>accept-friend-request\<close> handler builds it.\<close>

record server_conversation =
  sc_id :: string
  sc_participants :: "user_id list"
  sc_createdAt :: string
  sc_lastMessage :: "message option"
  sc_unreadCount :: nat
  sc_updatedAt :: "string option"

text \<open>
  The socket part of \<^verbatim>\<open>globalData\<close>: each \<^verbatim>\<open>Map\<close> is an association list in insertion
  order (\<open>AList.update\<close> replaces the value of a present key in place and appends a new
  key, as \<^verbatim>\<open>Map.prototype.set\<close> does). \<open>io_sockets\<close> and \<open>io_rooms\<close> are the state of the
  socket.io server: the connected sockets and the rooms each has joined. The registry
  fields \<^verbatim>\<open>users\<close> and \<^verbatim>\<open>counter\<close> are the record \<open>registry\<close> above; no socket handler
  reads or writes them.
\<close>

record server =
  g_onlineUsers :: "(user_id \<times> online_entry) list"
  g_conversations :: "(string \<times> server_conversation) list"
  g_messages :: "(string \<times> message list) list"
  g_friendRequests :: "(user_id \<times> friendRequest list) list"
  io_sockets :: "socket_id list"
  io_rooms :: "(socket_id \<times> room) list"

definition initial_server :: server where
  "initial_server = \<lparr>g_onlineUsers = [], g_conversations = [], g_messages = [],
     g_friendRequests = [], io_sockets = [], io_rooms = []\<rparr>"

record user_summary =
  us_id :: user_id
  us_name :: string
  us_username :: "string option"
  us_avatar :: "string option"

record friendData =
  fd_id :: user_id
  fd_name :: string
  fd_username :: "string option"

text \<open>The events the server emits, with their payloads.\<close>

datatype event =
    UserOnline user_summary
  | UserOffline user_id
  | OnlineUsersList "user_summary list"
  | FriendRequestsUpdate "friendRequest list"
  | FriendRequestReceived friendRequest
  | FriendRequestSent user_id
  | FriendRequestAccepted string friendData
  | ConversationCreated string friendData
  | MessageReceived string message
  | UserTyping user_id string
  | UserStoppedTyping user_id

type_synonym delivery = "socket_id \<times> event"

text \<open>
  socket.io: a socket is in the room named by its own id and in the rooms it joined.
  \<^verbatim>\<open>io.to(r).emit\<close> reaches every connected socket in room \<open>r\<close>, \<^verbatim>\<open>socket.to(r).emit\<close>
  every such socket but the sender, \<^verbatim>\<open>socket.broadcast.emit\<close> every connected socket but
  the sender, \<^verbatim>\<open>socket.emit\<close> the sender.
\<close>

definition in_room :: "server \<Rightarrow> socket_id \<Rightarrow> room \<Rightarrow> bool" where
  "in_room s sid r = (r = sid \<or> (sid, r) \<in> set (io_rooms s))"

definition io_to :: "server \<Rightarrow> room \<Rightarrow> event \<Rightarrow> delivery list" where
  "io_to s r e = map (\<lambda>sid. (sid, e)) (filter (\<lambda>sid. in_room s sid r) (io_sockets s))"

definition socket_to :: "server \<Rightarrow> socket_id \<Rightarrow> room \<Rightarrow> event \<Rightarrow> delivery list" where
  "socket_to s sock r e =
     map (\<lambda>sid. (sid, e)) (filter (\<lambda>sid. sid \<noteq> sock \<and> in_room s sid r) (io_sockets s))"

definition socket_broadcast :: "server \<Rightarrow> socket_id \<Rightarrow> event \<Rightarrow> delivery list" where
  "socket_broadcast s sock e = map (\<lambda>sid. (sid, e)) (filter (\<lambda>sid. sid \<noteq> sock) (io_sockets s))"

definition socket_emit :: "socket_id \<Rightarrow> event \<Rightarrow> delivery list" where
  "socket_emit sock e = [(sock, e)]"

definition socket_join :: "socket_id \<Rightarrow> room \<Rightarrow> server \<Rightarrow> server" where
  "socket_join sock r s = s\<lparr>io_rooms := List.insert (sock, r) (io_rooms s)\<rparr>"

text \<open>\<^verbatim>\<open>io.on('connection', ...)\<close>: the socket is connected; the handlers below are its.\<close>

definition connection :: "socket_id \<Rightarrow> server \<Rightarrow> server" where
  "connection sock s = s\<lparr>io_sockets := List.insert sock (io_sockets s)\<rparr>"

text \<open>\<^verbatim>\<open>map.get(k) || []\<close> for a map of arrays (an array, even empty, is truthy).\<close>

definition get_or_empty :: "('k \<times> 'v list) list \<Rightarrow> 'k \<Rightarrow> 'v list" where
  "get_or_empty m k = (case map_of m k of None \<Rightarrow> [] | Some l \<Rightarrow> l)"

definition summary :: "userData \<Rightarrow> user_summary" where
  "summary ud = \<lparr>us_id = ud_id ud, us_name = ud_name ud,
     us_username = or_else (ud_displayUsername ud) (ud_username ud), us_avatar = ud_avatar ud\<rparr>"

text \<open>\<^verbatim>\<open>socket.on('user-login', ...)\<close>; \<open>now\<close> is \<^verbatim>\<open>Date.now()\<close>.\<close>

definition user_login :: "socket_id \<Rightarrow> userData \<Rightarrow> nat \<Rightarrow> server \<Rightarrow> server \<times> delivery list" where
  "user_login sock ud now s =
     (let s1 = s\<lparr>g_onlineUsers := AList.update (ud_id ud)
                    \<lparr>oe_socketId = sock, oe_userData = ud, oe_lastSeen = now\<rparr> (g_onlineUsers s)\<rparr>;
          s2 = socket_join sock (''user_'' @ ud_id ud) s1;
          out1 = socket_broadcast s2 sock (UserOnline (summary ud));
          onlineUsersList = map (\<lambda>(k, u). summary (oe_userData u))
                              (filter (\<lambda>(k, u). ud_id (oe_userData u) \<noteq> ud_id ud) (g_onlineUsers s2));
          out2 = socket_emit sock (OnlineUsersList onlineUsersList);
          userRequests = get_or_empty (g_friendRequests s2) (ud_id ud);
          out3 = socket_emit sock (FriendRequestsUpdate userRequests)
      in (s2, out1 @ out2 @ out3))"

text \<open>
  \<^verbatim>\<open>socket.on('send-friend-request', ...)\<close>; \<open>stamp\<close> is \<^verbatim>\<open>new Date().toISOString()\<close> and
  \<open>rnd\<close> the printed \<^verbatim>\<open>Math.random()\<close>.
\<close>

definition send_friend_request ::
  "socket_id \<Rightarrow> user_id \<Rightarrow> user_id \<Rightarrow> userData \<Rightarrow> nat \<Rightarrow> string \<Rightarrow> string \<Rightarrow> server \<Rightarrow> server \<times> delivery list" where
  "send_friend_request sock senderId receiverId senderData now stamp rnd s =
     (let friendRequest = \<lparr>fr_id = ''req_'' @ dec now @ ''_'' @ rnd,
             fr_senderId = senderId, fr_receiverId = receiverId,
             fr_senderName = ud_name senderData,
             fr_senderUsername = or_else (ud_displayUsername senderData) (ud_username senderData),
             fr_senderAvatar = ud_avatar senderData,
             fr_timestamp = stamp, fr_status = Pending\<rparr>;
          s1 = s\<lparr>g_friendRequests := AList.update receiverId
                    (get_or_empty (g_friendRequests s) receiverId @ [friendRequest]) (g_friendRequests s)\<rparr>
      in (s1, io_to s1 (''user_'' @ receiverId) (FriendRequestReceived friendRequest)
              @ socket_emit sock (FriendRequestSent receiverId)))"

text \<open>\<^verbatim>\<open>Array.prototype.findIndex\<close>; \<open>None\<close> is \<open>-1\<close>.\<close>

fun findIndex :: "('a \<Rightarrow> bool) \<Rightarrow> 'a list \<Rightarrow> nat option" where
  "findIndex P [] = None"
| "findIndex P (x # xs) = (if P x then Some 0 else map_option Suc (findIndex P xs))"

text \<open>\<^verbatim>\<open>xs.splice(i, 1)\<close>: the array without the element at index \<open>i\<close>.\<close>

definition splice1 :: "nat \<Rightarrow> 'a list \<Rightarrow> 'a list" where
  "splice1 i xs = take i xs @ drop (Suc i) xs"

text \<open>\<^verbatim>\<open>socket.on('accept-friend-request', ...)\<close>.\<close>

definition accept_friend_request ::
  "socket_id \<Rightarrow> string \<Rightarrow> user_id \<Rightarrow> nat \<Rightarrow> string \<Rightarrow> server \<Rightarrow> server \<times> delivery list" where
  "accept_friend_request sock requestId userId now stamp s =
     (let userRequests = get_or_empty (g_friendRequests s) userId in
      case findIndex (\<lambda>req. fr_id req = requestId) userRequests of
        None \<Rightarrow> (s, [])
      | Some requestIndex \<Rightarrow>
          (let request = userRequests ! requestIndex;
               userRequests' = splice1 requestIndex userRequests;
               conversationId = ''conv_'' @ dec now @ ''_'' @ fr_senderId request @ ''_'' @ userId;
               conversation = \<lparr>sc_id = conversationId,
                  sc_participants = [fr_senderId request, userId],
                  sc_createdAt = stamp, sc_lastMessage = None, sc_unreadCount = 0,
                  sc_updatedAt = None\<rparr>;
               s1 = s\<lparr>g_friendRequests := AList.update userId userRequests' (g_friendRequests s),
                       g_conversations := AList.update conversationId conversation (g_conversations s),
                       g_messages := AList.update conversationId [] (g_messages s)\<rparr>
           in (s1,
               io_to s1 (''user_'' @ fr_senderId request)
                 (FriendRequestAccepted conversationId
                    \<lparr>fd_id = userId, fd_name = ''Friend'', fd_username = Some ''friend''\<rparr>)
               @ io_to s1 (''user_'' @ userId)
                 (ConversationCreated conversationId
                    \<lparr>fd_id = fr_senderId request, fd_name = fr_senderName request,
                     fd_username = fr_senderUsername request\<rparr>)
               @ io_to s1 (''user_'' @ userId) (FriendRequestsUpdate userRequests'))))"

text \<open>
  \<^verbatim>\<open>socket.on('send-message', ...)\<close>. \<open>content\<close> is a string, as every client of this
  repository sends it. The handler has no branch that rejects a request.
\<close>

definition new_message :: "user_id \<Rightarrow> user_id \<Rightarrow> string \<Rightarrow> nat \<Rightarrow> string \<Rightarrow> string \<Rightarrow> message" where
  "new_message senderId receiverId content now stamp rnd =
     \<lparr>msg_id = ''msg_'' @ dec now @ ''_'' @ rnd, msg_senderId = senderId,
      msg_receiverId = receiverId, msg_content = content, msg_timestamp = stamp,
      msg_type = Text, msg_read = False\<rparr>"

definition send_message ::
  "socket_id \<Rightarrow> string \<Rightarrow> user_id \<Rightarrow> string \<Rightarrow> user_id \<Rightarrow> nat \<Rightarrow> string \<Rightarrow> string \<Rightarrow> server \<Rightarrow> server \<times> delivery list" where
  "send_message sock conversationId senderId content receiverId now stamp rnd s =
     (let message = new_message senderId receiverId content now stamp rnd;
          s1 = s\<lparr>g_messages := AList.update conversationId
                    (get_or_empty (g_messages s) conversationId @ [message]) (g_messages s)\<rparr>;
          s2 = (case map_of (g_conversations s1) conversationId of
                  None \<Rightarrow> s1
                | Some conversation \<Rightarrow>
                    s1\<lparr>g_conversations := AList.update conversationId
                         (conversation\<lparr>sc_lastMessage := Some message, sc_updatedAt := Some stamp\<rparr>)
                         (g_conversations s1)\<rparr>)
      in (s2,
          (case map_of (g_conversations s2) conversationId of
             None \<Rightarrow> []
           | Some conversation \<Rightarrow>
               concat (map (\<lambda>participantId.
                              io_to s2 (''user_'' @ participantId) (MessageReceived conversationId message))
                           (sc_participants conversation)))))"

text \<open>\<^verbatim>\<open>socket.on('typing-start', ...)\<close> and \<^verbatim>\<open>socket.on('typing-stop', ...)\<close>.\<close>

definition typing_start :: "socket_id \<Rightarrow> string \<Rightarrow> user_id \<Rightarrow> string \<Rightarrow> server \<Rightarrow> server \<times> delivery list" where
  "typing_start sock conversationId userId userName s =
     (s, socket_to s sock (''conv_'' @ conversationId) (UserTyping userId userName))"

definition typing_stop :: "socket_id \<Rightarrow> string \<Rightarrow> user_id \<Rightarrow> server \<Rightarrow> server \<times> delivery list" where
  "typing_stop sock conversationId userId s =
     (s, socket_to s sock (''conv_'' @ conversationId) (UserStoppedTyping userId))"

text \<open>
  \<^verbatim>\<open>socket.on('disconnect', ...)\<close>: socket.io has taken the socket out of its rooms; the
  handler deletes the first online entry that carries this socket id. An empty user id
  is falsy, so no \<^verbatim>\<open>user-offline\<close> is broadcast for it.
\<close>

definition disconnect :: "socket_id \<Rightarrow> server \<Rightarrow> server \<times> delivery list" where
  "disconnect sock s =
     (let s0 = s\<lparr>io_sockets := removeAll sock (io_sockets s),
                  io_rooms := filter (\<lambda>(sid, r). sid \<noteq> sock) (io_rooms s)\<rparr>
      in case find (\<lambda>(userId, userInfo). oe_socketId userInfo = sock) (g_onlineUsers s0) of
           None \<Rightarrow> (s0, [])
         | Some (disconnectedUserId, userInfo) \<Rightarrow>
             (let s1 = s0\<lparr>g_onlineUsers := AList.delete disconnectedUserId (g_onlineUsers s0)\<rparr>
              in (s1, if disconnectedUserId \<noteq> []
                      then socket_broadcast s1 sock (UserOffline disconnectedUserId) else [])))"

text \<open>\<^verbatim>\<open>socket.on('heartbeat', ...)\<close>.\<close>

definition heartbeat :: "userData \<Rightarrow> nat \<Rightarrow> server \<Rightarrow> server" where
  "heartbeat ud now s =
     (case map_of (g_onlineUsers s) (ud_id ud) of
        None \<Rightarrow> s
      | Some entry \<Rightarrow>
          s\<lparr>g_onlineUsers := AList.update (ud_id ud) (entry\<lparr>oe_lastSeen := now\<rparr>) (g_onlineUsers s)\<rparr>)"

text \<open>The events that change who is connected and online, and a run of them.\<close>

datatype presence_event =
    Connect socket_id
  | Login socket_id userData nat
  | Heartbeat userData nat
  | Disconnect socket_id

fun presence_step :: "presence_event \<Rightarrow> server \<Rightarrow> server" where
  "presence_step (Connect sock) s = connection sock s"
| "presence_step (Login sock ud now) s = fst (user_login sock ud now s)"
| "presence_step (Heartbeat ud now) s = heartbeat ud now s"
| "presence_step (Disconnect sock) s = fst (disconnect sock s)"

text \<open>The stored history of a conversation, and the sockets an output reaches.\<close>

definition history :: "server \<Rightarrow> string \<Rightarrow> message list" where
  "history s conversationId = get_or_empty (g_messages s) conversationId"

definition receivers :: "delivery list \<Rightarrow> socket_id list" where
  "receivers out = map fst out"


definition is_participant :: "server \<Rightarrow> string \<Rightarrow> user_id \<Rightarrow> bool" where
  "is_participant s conversationId userId =
     (case map_of (g_conversations s) conversationId of
        None \<Rightarrow> False
      | Some conversation \<Rightarrow> userId \<in> set (sc_participants conversation))"

text \<open>The conversations of the server whose participants include both users.\<close>

definition conversations_of_pair :: "server \<Rightarrow> user_id \<Rightarrow> user_id \<Rightarrow> server_conversation list" where
  "conversations_of_pair s a b =
     filter (\<lambda>c. a \<in> set (sc_participants c) \<and> b \<in> set (sc_participants c))
       (map snd (g_conversations s))"

text \<open>The pending requests stored for \<open>receiverId\<close> that come from \<open>senderId\<close>.\<close>

definition pending_requests :: "friendRequest list \<Rightarrow> user_id \<Rightarrow> user_id \<Rightarrow> friendRequest list" where
  "pending_requests reqs senderId receiverId =
     filter (\<lambda>r. fr_senderId r = senderId \<and> fr_receiverId r = receiverId \<and> fr_status r = Pending) reqs"

text \<open>Every event a socket can send, and the server's state after a run of them.\<close>

datatype server_event =
    EvConnect socket_id
  | EvLogin socket_id userData nat
  | EvSendFriendRequest socket_id user_id user_id userData nat string string
  | EvAcceptFriendRequest socket_id string user_id nat string
  | EvSendMessage socket_id string user_id string user_id nat string string
  | EvTypingStart socket_id string user_id string
  | EvTypingStop socket_id string user_id
  | EvHeartbeat userData nat
  | EvDisconnect socket_id

fun step :: "server_event \<Rightarrow> server \<Rightarrow> server" where
  "step (EvConnect sock) s = connection sock s"
| "step (EvLogin sock ud now) s = fst (user_login sock ud now s)"
| "step (EvSendFriendRequest sock a b ud now stamp rnd) s = fst (send_friend_request sock a b ud now stamp rnd s)"
| "step (EvAcceptFriendRequest sock rid uid now stamp) s = fst (accept_friend_request sock rid uid now stamp s)"
| "step (EvSendMessage sock cid a content b now stamp rnd) s = fst (send_message sock cid a content b now stamp rnd s)"
| "step (EvTypingStart sock cid uid uname) s = fst (typing_start sock cid uid uname s)"
| "step (EvTypingStop sock cid uid) s = fst (typing_stop sock cid uid s)"
| "step (EvHeartbeat ud now) s = heartbeat ud now s"
| "step (EvDisconnect sock) s = fst (disconnect sock s)"

text \<open>Every joined room is a user's room \<open>user_<id>\<close>.\<close>

definition rooms_user :: "server \<Rightarrow> bool" where
  "rooms_user s = (\<forall>(sid, r) \<in> set (io_rooms s). take 5 r = ''user_'')"

section \<open>The chat context (\<open>src/contexts/ChatContext.tsx\<close>, \<open>unnamed/part_002\<close>)\<close>

text \<open>
  The provider's React state, passed explicitly. Each operation of the context is run to
  completion on the rendered state, its state updates applied before the next operation
  starts (React renders between user actions).
\<close>

datatype conversation_status = Active | Archived | Locked | Muted

record conversation =
  c_id :: string
  c_participants :: "user_id list"
  c_lastMessage :: "message option"
  c_unreadCount :: nat
  c_updatedAt :: string
  c_status :: conversation_status
  c_password :: "string option"

datatype presence = Online | Offline | Away

record chat_user =
  cu_id :: user_id
  cu_name :: string
  cu_username :: string
  cu_avatar :: string
  cu_status :: presence

record chat =
  st_conversations :: "conversation list"
  st_messages :: "(string \<times> message list) list"
  st_users :: "chat_user list"
  st_friendRequests :: "friendRequest list"
  st_activeConversation :: "string option"

text \<open>\<^verbatim>\<open>createConversation\<close> (the same text in both files); \<open>currentUserId\<close> is \<^verbatim>\<open>currentUser.id\<close>.\<close>

definition createConversation :: "user_id \<Rightarrow> user_id \<Rightarrow> nat \<Rightarrow> string \<Rightarrow> chat \<Rightarrow> string \<times> chat" where
  "createConversation currentUserId userId now stamp st =
     (case find (\<lambda>c. userId \<in> set (c_participants c) \<and> currentUserId \<in> set (c_participants c))
             (st_conversations st) of
        Some existingConv \<Rightarrow> (c_id existingConv, st)
      | None \<Rightarrow>
          (let newConvId = ''conv_'' @ dec now;
               newConversation = \<lparr>c_id = newConvId, c_participants = [currentUserId, userId],
                  c_lastMessage = None, c_unreadCount = 0, c_updatedAt = stamp,
                  c_status = Active, c_password = None\<rparr>
           in (newConvId,
               st\<lparr>st_conversations := st_conversations st @ [newConversation],
                  st_messages := AList.update newConvId [] (st_messages st)\<rparr>)))"

text \<open>The conversation-management functions (the same text in both files).\<close>

definition getConversationsByStatus :: "conversation_status \<Rightarrow> chat \<Rightarrow> conversation list" where
  "getConversationsByStatus status st = filter (\<lambda>conv. c_status conv = status) (st_conversations st)"

definition set_status :: "string \<Rightarrow> conversation_status \<Rightarrow> chat \<Rightarrow> chat" where
  "set_status conversationId status st =
     st\<lparr>st_conversations :=
          map (\<lambda>conv. if c_id conv = conversationId then conv\<lparr>c_status := status\<rparr> else conv)
            (st_conversations st)\<rparr>"

definition archiveConversation :: "string \<Rightarrow> chat \<Rightarrow> chat" where
  "archiveConversation conversationId st = set_status conversationId Archived st"

definition unarchiveConversation :: "string \<Rightarrow> chat \<Rightarrow> chat" where
  "unarchiveConversation conversationId st = set_status conversationId Active st"

definition muteConversation :: "string \<Rightarrow> chat \<Rightarrow> chat" where
  "muteConversation conversationId st = set_status conversationId Muted st"

definition unmuteConversation :: "string \<Rightarrow> chat \<Rightarrow> chat" where
  "unmuteConversation conversationId st = set_status conversationId Active st"

definition lockConversation :: "string \<Rightarrow> string \<Rightarrow> chat \<Rightarrow> chat" where
  "lockConversation conversationId password st =
     st\<lparr>st_conversations :=
          map (\<lambda>conv. if c_id conv = conversationId
                       then conv\<lparr>c_status := Locked, c_password := Some password\<rparr> else conv)
            (st_conversations st)\<rparr>"

definition unlockConversation :: "string \<Rightarrow> string \<Rightarrow> chat \<Rightarrow> bool \<times> chat" where
  "unlockConversation conversationId password st =
     (case find (\<lambda>conv. c_id conv = conversationId) (st_conversations st) of
        None \<Rightarrow> (False, st)
      | Some conversation \<Rightarrow>
          if c_password conversation = Some password
          then (True,
                st\<lparr>st_conversations :=
                     map (\<lambda>conv. if c_id conv = conversationId
                                  then conv\<lparr>c_status := Active, c_password := None\<rparr> else conv)
                       (st_conversations st)\<rparr>)
          else (False, st))"

definition deleteConversation :: "string \<Rightarrow> chat \<Rightarrow> chat" where
  "deleteConversation conversationId st =
     st\<lparr>st_conversations := filter (\<lambda>conv. c_id conv \<noteq> conversationId) (st_conversations st),
        st_messages := AList.delete conversationId (st_messages st),
        st_activeConversation :=
          (if st_activeConversation st = Some conversationId then None else st_activeConversation st)\<rparr>"

text \<open>What the context holds for a conversation id: the first conversation with that id.\<close>

definition status_of :: "chat \<Rightarrow> string \<Rightarrow> conversation_status option" where
  "status_of st conversationId =
     map_option c_status (find (\<lambda>conv. c_id conv = conversationId) (st_conversations st))"

definition stored_password :: "chat \<Rightarrow> string \<Rightarrow> string option" where
  "stored_password st conversationId =
     (case find (\<lambda>conv. c_id conv = conversationId) (st_conversations st) of
        None \<Rightarrow> None
      | Some conv \<Rightarrow> c_password conv)"

subsection \<open>Presence from localStorage\<close>

text \<open>
  \<open>part_002\<close> keeps a status object under \<^verbatim>\<open>user_status_<id>\<close> and
  \<^verbatim>\<open>global_user_status_<id>\<close>, refreshed by a 3-second heartbeat. A stored text is
  modelled by what reading it gives: the empty text (falsy), a text on which
  \<^verbatim>\<open>JSON.parse\<close> or the property access throws, or an object with its \<^verbatim>\<open>timestamp\<close>
  (a number of milliseconds, or absent).
\<close>

datatype stored_status = EmptyText | Unparsable | StatusData "int option"

type_synonym status_storage = "(string \<times> stored_status) list"

text \<open>\<^verbatim>\<open>localStorage.getItem(k1) || localStorage.getItem(k2)\<close>.\<close>

definition getItem_or :: "status_storage \<Rightarrow> string \<Rightarrow> string \<Rightarrow> stored_status option" where
  "getItem_or ls k1 k2 =
     (case map_of ls k1 of
        None \<Rightarrow> map_of ls k2
      | Some v \<Rightarrow> if v = EmptyText then map_of ls k2 else Some v)"

text \<open>
  \<^verbatim>\<open>getUserOnlineStatus\<close> of \<open>part_002\<close>; \<open>now\<close> is \<^verbatim>\<open>Date.now()\<close>. A stale entry is
  removed from the storage, so the storage is returned as well.
\<close>

definition getUserOnlineStatus_p2 :: "status_storage \<Rightarrow> user_id \<Rightarrow> int \<Rightarrow> presence \<times> status_storage" where
  "getUserOnlineStatus_p2 ls userId now =
     (let statusKey = ''user_status_'' @ userId;
          globalStatusKey = ''global_user_status_'' @ userId
      in case getItem_or ls statusKey globalStatusKey of
           None \<Rightarrow> (Offline, ls)
         | Some EmptyText \<Rightarrow> (Offline, ls)
         | Some Unparsable \<Rightarrow> (Offline, ls)
         | Some (StatusData timestamp) \<Rightarrow>
             (let lastSeen = (case timestamp of None \<Rightarrow> 0 | Some t \<Rightarrow> t)
              in if now - lastSeen > 10000
                 then (Offline, AList.delete globalStatusKey (AList.delete statusKey ls))
                 else (Online, ls)))"

text \<open>
  \<open>ChatContext.tsx\<close> keeps an ISO date under \<^verbatim>\<open>user_last_seen_<id>\<close>. The stored text is
  modelled by the reading of \<^verbatim>\<open>new Date(text).getTime()\<close>: milliseconds, or \<open>None\<close> for
  \<^verbatim>\<open>NaN\<close> (an invalid date); the empty text is falsy. \<^verbatim>\<open>diffMinutes\<close> is the difference
  in milliseconds divided by 60000, so \<^verbatim>\<open>diffMinutes < 5\<close> is \<open>diff < 300000\<close> and
  \<^verbatim>\<open>diffMinutes < 30\<close> is \<open>diff < 1800000\<close>; every comparison with \<^verbatim>\<open>NaN\<close> is false.
\<close>

datatype stored_date = EmptyDate | DateTime "int option"

definition getUserOnlineStatus :: "(user_id \<times> stored_date) list \<Rightarrow> user_id \<Rightarrow> int \<Rightarrow> presence" where
  "getUserOnlineStatus last_seen userId now =
     (case map_of last_seen userId of
        None \<Rightarrow> Offline
      | Some EmptyDate \<Rightarrow> Offline
      | Some (DateTime None) \<Rightarrow> Offline
      | Some (DateTime (Some lastSeenTime)) \<Rightarrow>
          (let diff = now - lastSeenTime
           in if diff < 5 * 60000 then Online
              else if diff < 30 * 60000 then Away
              else Offline))"

text \<open>
  The heartbeat of \<open>part_002\<close> (\<^verbatim>\<open>updateUserOnlineStatus(true)\<close> and its interval
  callback): the status object with \<^verbatim>\<open>timestamp: Date.now()\<close> goes under both keys,
  then the trigger key \<^verbatim>\<open>user_status_update\<close> receives the printed time, a text that
  parses to a number and so has no \<^verbatim>\<open>timestamp\<close>.
\<close>

definition status_heartbeat :: "user_id \<Rightarrow> int \<Rightarrow> status_storage \<Rightarrow> status_storage" where
  "status_heartbeat userId now ls =
     AList.update ''user_status_update'' (StatusData None)
       (AList.update (''global_user_status_'' @ userId) (StatusData (Some now))
         (AList.update (''user_status_'' @ userId) (StatusData (Some now)) ls))"

text \<open>
  \<^verbatim>\<open>updateUserOnlineStatus\<close> of \<open>ChatContext.tsx\<close> writes the current time under
  \<^verbatim>\<open>user_last_seen_<id>\<close>, whatever its argument; the other keys it writes
  (\<^verbatim>\<open>user_status_<id>\<close>, \<^verbatim>\<open>user_status_update\<close>) are not read by
  \<^verbatim>\<open>getUserOnlineStatus\<close> and are left out. \<open>last_seen\<close> is the family of keys
  \<^verbatim>\<open>user_last_seen_<id>\<close>, by user id.
\<close>

definition updateUserOnlineStatus :: "user_id \<Rightarrow> int \<Rightarrow> (user_id \<times> stored_date) list \<Rightarrow> (user_id \<times> stored_date) list" where
  "updateUserOnlineStatus userId now last_seen = AList.update userId (DateTime (Some now)) last_seen"

subsection \<open>Sending a friend request\<close>

text \<open>
  \<^verbatim>\<open>parseInt(text)\<close> without a radix: leading white space, a sign, \<^verbatim>\<open>0x\<close> for base 16,
  then the longest run of digits; \<open>None\<close> is \<^verbatim>\<open>NaN\<close>. Characters are 8-bit here.
\<close>

definition is_space :: "char \<Rightarrow> bool" where
  "is_space c = (of_char c \<in> {9, 10, 11, 12, 13, 32, 160 :: nat})"

definition digit_value :: "char \<Rightarrow> nat" where
  "digit_value c =
     (let n = of_char c :: nat
      in if 48 \<le> n \<and> n \<le> 57 then n - 48
         else if 97 \<le> n \<and> n \<le> 122 then n - 87
         else if 65 \<le> n \<and> n \<le> 90 then n - 55
         else 36)"

definition parseInt :: "string \<Rightarrow> int option" where
  "parseInt text =
     (let s1 = dropWhile is_space text;
          negative = (take 1 s1 = ''-'');
          s2 = (if take 1 s1 = ''-'' \<or> take 1 s1 = ''+'' then drop 1 s1 else s1);
          hex = (take 2 s2 = ''0x'' \<or> take 2 s2 = ''0X'');
          radix = (if hex then 16 else 10);
          s3 = (if hex then drop 2 s2 else s2);
          digits = takeWhile (\<lambda>c. digit_value c < radix) s3;
          n = foldl (\<lambda>a c. radix * a + digit_value c) 0 digits
      in if digits = [] then None
         else Some (if negative then - int n else int n))"

definition startsWith_hash :: "string \<Rightarrow> bool" where
  "startsWith_hash text = (take 1 text = ''#'')"

text \<open>A registered user, as \<^verbatim>\<open>getAllRegisteredUsers()\<close> reads it from the shared key.\<close>

record reg_user =
  ru_id :: user_id
  ru_name :: string
  ru_username :: string
  ru_displayUsername :: "string option"
  ru_sequentialId :: "int option"
  ru_avatar :: "string option"

text \<open>
  The keys of localStorage that \<^verbatim>\<open>sendFriendRequest\<close> uses, each holding what this
  program wrote there: the shared user list (\<open>[]\<close> when absent), and per user id the
  lists under \<^verbatim>\<open>friend_requests_<id>\<close> and \<^verbatim>\<open>sent_requests_<id>\<close> (\<open>[]\<close> when absent).
  The trigger key \<^verbatim>\<open>friend_request_update\<close>, which the function only writes, is left out.
\<close>

record local_storage =
  ls_registered :: "reg_user list"
  ls_friend_requests :: "(user_id \<times> friendRequest list) list"
  ls_sent_requests :: "(user_id \<times> friendRequest list) list"

text \<open>What the client emits on its socket.\<close>

datatype client_emit = EmitSendFriendRequest user_id user_id userData

text \<open>
  \<^verbatim>\<open>wsSendFriendRequest\<close> of \<open>useWebSocket.ts\<close>: emits when the socket is connected and
  says whether it did.
\<close>

definition wsSendFriendRequest :: "bool \<Rightarrow> userData \<Rightarrow> user_id \<Rightarrow> bool \<times> client_emit list" where
  "wsSendFriendRequest connected currentUser receiverId =
     (if connected then (True, [EmitSendFriendRequest (ud_id currentUser) receiverId currentUser])
      else (False, []))"

text \<open>
  \<^verbatim>\<open>sendFriendRequest\<close> of \<open>ChatContext.tsx\<close>: the result, the storage and the socket
  output. The React state is only read.
\<close>

definition sendFriendRequest ::
  "userData \<Rightarrow> bool \<Rightarrow> string \<Rightarrow> nat \<Rightarrow> string \<Rightarrow> chat \<Rightarrow> local_storage \<Rightarrow> bool \<times> local_storage \<times> client_emit list" where
  "sendFriendRequest currentUser connected username now stamp st ls =
     (let registeredUsers = ls_registered ls;
          existingUser = find (\<lambda>u. cu_username u = username
                                  \<or> (startsWith_hash username \<and> cu_username u = username)
                                  \<or> cu_username u = (if startsWith_hash username then username
                                                     else CHR ''#'' # username))
                           (st_users st)
      in if existingUser \<noteq> None then (False, ls, [])
         else
           case find (\<lambda>u. ru_displayUsername u = Some username
                          \<or> (startsWith_hash username \<and> ru_displayUsername u = Some username)
                          \<or> ru_username u = username
                          \<or> (startsWith_hash username
                              \<and> parseInt (remove1 CHR ''#'' username) \<noteq> None
                              \<and> ru_sequentialId u = parseInt (remove1 CHR ''#'' username)))
                  registeredUsers of
             None \<Rightarrow> (False, ls, [])
           | Some foundUser \<Rightarrow>
               if ru_id foundUser = ud_id currentUser then (False, ls, [])
               else
                 (let existingRequest =
                        find (\<lambda>req. fr_receiverId req = ru_id foundUser
                                    \<and> fr_senderId req = ud_id currentUser
                                    \<and> fr_status req = Pending)
                          (st_friendRequests st)
                  in if existingRequest \<noteq> None then (False, ls, [])
                     else
                       (let newRequest = \<lparr>fr_id = ''req_'' @ dec now,
                               fr_senderId = ud_id currentUser, fr_receiverId = ru_id foundUser,
                               fr_senderName = ud_name currentUser,
                               fr_senderUsername =
                                 or_else (ud_displayUsername currentUser) (ud_username currentUser),
                               fr_senderAvatar = ud_avatar currentUser,
                               fr_timestamp = stamp, fr_status = Pending\<rparr>;
                            (wsSuccess, emitted) = wsSendFriendRequest connected currentUser (ru_id foundUser)
                        in if wsSuccess then (True, ls, emitted)
                           else
                             (True,
                              ls\<lparr>ls_friend_requests :=
                                    AList.update (ru_id foundUser)
                                      (get_or_empty (ls_friend_requests ls) (ru_id foundUser) @ [newRequest])
                                      (ls_friend_requests ls),
                                 ls_sent_requests :=
                                    AList.update (ud_id currentUser)
                                      (get_or_empty (ls_sent_requests ls) (ud_id currentUser) @ [newRequest])
                                      (ls_sent_requests ls)\<rparr>,
                              emitted))))"


section \<open>Scenarios\<close>

text \<open>
  Two users, Alice (\<open>u1\<close>, handle \<open>#1\<close>) and Bob (\<open>u2\<close>, handle \<open>#2\<close>), on sockets \<open>sA\<close>
  and \<open>sB\<close>; the states the server goes through when they log in, send friend requests
  and accept them.
\<close>

definition alice :: userData where
  "alice = \<lparr>ud_id = ''u1'', ud_name = ''Alice'', ud_username = Some ''alice'',
     ud_displayUsername = Some ''#1'', ud_avatar = None\<rparr>"

definition bob :: userData where
  "bob = \<lparr>ud_id = ''u2'', ud_name = ''Bob'', ud_username = Some ''bob'',
     ud_displayUsername = Some ''#2'', ud_avatar = None\<rparr>"

definition both_online :: server where
  "both_online = fst (user_login ''sB'' bob 2 (connection ''sB''
                   (fst (user_login ''sA'' alice 1 (connection ''sA'' initial_server)))))"

text \<open>Alice has sent Bob a friend request.\<close>

definition requested :: server where
  "requested = fst (send_friend_request ''sA'' ''u1'' ''u2'' alice 3 ''t3'' ''0.25'' both_online)"

text \<open>Bob has accepted it: the two share the conversation \<open>conv_4_u1_u2\<close>.\<close>

definition friends :: server where
  "friends = fst (accept_friend_request ''sB'' ''req_3_0.25'' ''u2'' 4 ''t4'' requested)"

text \<open>Alice has sent the same request a second time before Bob answered.\<close>

definition requested_twice :: server where
  "requested_twice = fst (send_friend_request ''sA'' ''u1'' ''u2'' alice 4 ''t4'' ''0.75'' requested)"

text \<open>Bob has sent Alice a request as well, and each has accepted the other's.\<close>

definition crossing :: server where
  "crossing = fst (send_friend_request ''sB'' ''u2'' ''u1'' bob 4 ''t4'' ''0.75'' requested)"

definition accepted_twice :: server where
  "accepted_twice =
     fst (accept_friend_request ''sA'' ''req_4_0.75'' ''u1'' 6 ''t6''
       (fst (accept_friend_request ''sB'' ''req_3_0.25'' ''u2'' 5 ''t5'' crossing)))"

text \<open>The same two users in the shared localStorage, and Alice's context without a socket.\<close>

definition alice_reg :: reg_user where
  "alice_reg = \<lparr>ru_id = ''u1'', ru_name = ''Alice'', ru_username = ''alice'',
     ru_displayUsername = Some ''#1'', ru_sequentialId = Some 1, ru_avatar = None\<rparr>"

definition bob_reg :: reg_user where
  "bob_reg = \<lparr>ru_id = ''u2'', ru_name = ''Bob'', ru_username = ''bob'',
     ru_displayUsername = Some ''#2'', ru_sequentialId = Some 2, ru_avatar = None\<rparr>"

definition empty_chat :: chat where
  "empty_chat = \<lparr>st_conversations = [], st_messages = [], st_users = [],
     st_friendRequests = [], st_activeConversation = None\<rparr>"

definition shared_storage :: local_storage where
  "shared_storage = \<lparr>ls_registered = [alice_reg, bob_reg], ls_friend_requests = [],
     ls_sent_requests = []\<rparr>"

definition sent_once :: local_storage where
  "sent_once = fst (snd (sendFriendRequest alice False ''#2'' 3 ''t3'' empty_chat shared_storage))"

definition sent_twice :: local_storage where
  "sent_twice = fst (snd (sendFriendRequest alice False ''#2'' 4 ''t4'' empty_chat sent_once))"

text \<open>Alice's context after she created the conversation with Bob and locked it.\<close>

definition with_conversation :: chat where
  "with_conversation = snd (createConversation ''u1'' ''u2'' 7 ''t7'' empty_chat)"

definition locked_chat :: chat where
  "locked_chat = lockConversation ''conv_7'' ''hunter2'' with_conversation"

chapter \<open>Verification\<close>

section \<open>Decimal numerals\<close>

lemma digit_val_digit_char: "d < 10 \<Longrightarrow> digit_val (digit_char d) = d"
  by (simp add: digit_val_def digit_char_def)

lemma undec_snoc: "undec (s @ [c]) = 10 * undec s + digit_val c"
  by (simp add: undec_def)

lemma undec_dec: "undec (dec n) = n"
proof (induction n rule: dec.induct)
  case (1 n)
  show ?case
  proof (cases "n < 10")
    case True
    then have "dec n = [digit_char n]"
      by (subst dec.simps) simp
    with True show ?thesis
      by (simp add: undec_def digit_val_digit_char)
  next
    case False
    then have "dec n = dec (n div 10) @ [digit_char (n mod 10)]"
      by (subst dec.simps) simp
    then have "undec (dec n) = 10 * undec (dec (n div 10)) + digit_val (digit_char (n mod 10))"
      by (simp add: undec_snoc)
    also have "\<dots> = 10 * (n div 10) + n mod 10"
      using 1 False by (simp add: digit_val_digit_char)
    finally show ?thesis by simp
  qed
qed

lemma dec_inj: "dec m = dec n \<longleftrightarrow> m = n"
  by (metis undec_dec)

lemma handle_inj: "handle m = handle n \<longleftrightarrow> m = n"
  by (simp add: handle_def dec_inj)

section \<open>Lists\<close>

lemma find_Some_mem: "find P xs = Some x \<Longrightarrow> x \<in> set xs \<and> P x"
  by (induction xs) (auto split: if_splits)

lemma find_append:
  "find P (xs @ ys) = (case find P xs of Some x \<Rightarrow> Some x | None \<Rightarrow> find P ys)"
  by (induction xs) simp_all

lemma find_map_same_id:
  "(\<And>c. c_id (f c) = c_id c) \<Longrightarrow>
     find (\<lambda>conv. c_id conv = cid) (map f cs) = map_option f (find (\<lambda>conv. c_id conv = cid) cs)"
  by (induction cs) simp_all

section \<open>The user registry\<close>

lemma dec_1: "dec 1 = ''1''"
  by code_simp

lemma handle_1: "handle 1 = ''#1''"
  using dec_1 by (simp add: handle_def)

lemma post_users_cjs_eq: "post_users_cjs body now stamp data = post_users body now stamp data"
  by (simp add: post_users_cjs_def post_users_def writeData_def Let_def split: option.splits)

lemma delete_users_cjs_eq: "delete_users_cjs data = (Inr (fst (delete_users data)), snd (delete_users data))"
  by (simp add: delete_users_cjs_def delete_users_def writeData_def)

lemma post_users_cases:
  "post_users body now stamp data = (r, data') \<Longrightarrow>
     (\<exists>e. r = Inl e \<and> data' = data) \<or>
     (\<exists>u. r = Inr u \<and> u_sequentialId u = counter data + 1 \<and> u_displayUsername u = handle (counter data + 1)
          \<and> users data' = users data @ [u] \<and> counter data' = counter data + 1)"
  by (auto simp: post_users_def Let_def split: option.splits)

lemma register_all_run:
  "register_all data reqs = (rs, data') \<Longrightarrow>
     users data' = users data @ registered rs \<and>
     counter data' = counter data + length (registered rs) \<and>
     map u_sequentialId (registered rs) = [counter data + 1 ..< counter data + 1 + length (registered rs)]"
proof (induction reqs arbitrary: data rs data')
  case Nil
  then show ?case by simp
next
  case (Cons q reqs)
  obtain body now stamp where q: "q = (body, now, stamp)" by (cases q)
  obtain r d1 where p: "post_users body now stamp data = (r, d1)" by fastforce
  obtain rs1 d2 where ra: "register_all d1 reqs = (rs1, d2)" by fastforce
  from Cons.prems q p ra have rs: "rs = r # rs1" and d': "data' = d2" by simp_all
  note IH = Cons.IH [OF ra]
  from post_users_cases [OF p] show ?case
  proof (elim disjE exE conjE)
    fix e assume "r = Inl e" "d1 = data"
    with IH rs d' show ?thesis by simp
  next
    fix u assume u: "r = Inr u" "u_sequentialId u = counter data + 1" "u_displayUsername u = handle (counter data + 1)"
      "users d1 = users data @ [u]" "counter d1 = counter data + 1"
    with IH rs d' show ?thesis by (simp add: upt_conv_Cons del: upt_Suc)
  qed
qed

lemma registered_handles:
  "register_all data reqs = (rs, data') \<Longrightarrow> \<forall>u \<in> set (registered rs). u_displayUsername u = handle (u_sequentialId u)"
proof (induction reqs arbitrary: data rs data')
  case Nil
  then show ?case by simp
next
  case (Cons q reqs)
  obtain body now stamp where q: "q = (body, now, stamp)" by (cases q)
  obtain r d1 where p: "post_users body now stamp data = (r, d1)" by fastforce
  obtain rs1 d2 where ra: "register_all d1 reqs = (rs1, d2)" by fastforce
  from Cons.prems q p ra have rs: "rs = r # rs1" by simp
  from Cons.IH [OF ra] post_users_cases [OF p] rs show ?case by auto
qed

text \<open>
  Claim C3. Registrations handled one after the other from the server's initial state: the
  n-th successful registration receives sequential id \<open>n\<close> and handle \<open>#n\<close>, the handles
  are pairwise different and the ids strictly increase in order of completion; the
  stored user list is exactly the successful registrations in that order.
\<close>

theorem C3_sequential_handles:
  "case register_all initial_registry reqs of (rs, data') \<Rightarrow>
     map u_displayUsername (registered rs) = map handle [1 ..< Suc (length (registered rs))]
   \<and> map u_sequentialId (registered rs) = [1 ..< Suc (length (registered rs))]
   \<and> distinct (map u_displayUsername (registered rs))
   \<and> sorted_wrt (<) (map u_sequentialId (registered rs))
   \<and> users data' = registered rs"
proof -
  obtain rs data' where run: "register_all initial_registry reqs = (rs, data')"
    by fastforce
  let ?ok = "registered rs"
  from register_all_run [OF run]
  have ids: "map u_sequentialId ?ok = [1 ..< Suc (length ?ok)]" and us: "users data' = ?ok"
    by (simp_all add: initial_registry_def)
  from registered_handles [OF run]
  have "map u_displayUsername ?ok = map handle (map u_sequentialId ?ok)"
    by simp
  with ids have hs: "map u_displayUsername ?ok = map handle [1 ..< Suc (length ?ok)]"
    by simp
  have "inj_on handle (set [1 ..< Suc (length ?ok)])"
    by (simp add: inj_on_def handle_inj)
  then have d: "distinct (map u_displayUsername ?ok)"
    unfolding hs by (simp add: distinct_map)
  have s: "sorted_wrt (<) (map u_sequentialId ?ok)"
    unfolding ids by (rule sorted_wrt_upt)
  from ids us hs d s run show ?thesis by simp
qed

text \<open>
  Claim C10. \<open>DELETE /api/users\<close>, in any state, leaves an empty user list and counter 0
  (in both servers), and the registration that follows receives sequential id 1 and
  handle \<open>#1\<close> whatever the counter was before the reset.
\<close>

theorem C10_delete_resets_counter:
  "snd (delete_users data) = \<lparr>users = [], counter = 0\<rparr>
   \<and> delete_users_cjs data = (Inr ''All users deleted'', \<lparr>users = [], counter = 0\<rparr>)
   \<and> (\<exists>u. fst (post_users body now stamp (snd (delete_users data))) = Inr u
          \<and> u_sequentialId u = 1 \<and> u_displayUsername u = ''#1'')
   \<and> (\<exists>u. fst (post_users_cjs body now stamp (snd (delete_users_cjs data))) = Inr u
          \<and> u_sequentialId u = 1 \<and> u_displayUsername u = ''#1'')"
  using handle_1
  by (simp add: delete_users_def delete_users_cjs_def writeData_def post_users_cjs_eq post_users_def Let_def)

section \<open>Messages in the server's store\<close>

lemma history_send_message:
  "history (fst (send_message sock cid sender content receiver now stamp rnd s)) cid
     = history s cid @ [new_message sender receiver content now stamp rnd]"
  by (simp add: send_message_def history_def get_or_empty_def Let_def update_conv' split: option.splits)

lemma presence_step_messages: "g_messages (presence_step ev s) = g_messages s"
  by (cases ev)
     (simp_all add: connection_def user_login_def socket_join_def heartbeat_def disconnect_def Let_def
        split: option.splits prod.splits)

lemma presence_run_messages: "g_messages (fold presence_step evs s) = g_messages s"
  by (induction evs arbitrary: s) (simp_all add: presence_step_messages)

text \<open>
  Bob disconnects, Alice sends a message, Bob connects and logs in again on a new socket:
  the message went to Alice's socket only and is in the stored history afterwards.
\<close>

lemma message_to_offline_receiver:
  "receivers (snd (send_message ''sA'' ''conv_4_u1_u2'' ''u1'' ''hi'' ''u2'' 5 ''t5'' ''0.5''
                    (fst (disconnect ''sB'' friends)))) = [''sA'']
   \<and> history (fst (user_login ''sB2'' bob 7 (connection ''sB2''
          (fst (send_message ''sA'' ''conv_4_u1_u2'' ''u1'' ''hi'' ''u2'' 5 ''t5'' ''0.5''
                 (fst (disconnect ''sB'' friends))))))) ''conv_4_u1_u2''
       = [new_message ''u1'' ''u2'' ''hi'' 5 ''t5'' ''0.5'']"
  unfolding friends_def requested_def both_online_def
  by code_simp

text \<open>
  Claim C1. Whatever the state of the server (so whoever is connected, online or in
  which room), \<^verbatim>\<open>send-message\<close> appends to the history stored for the conversation
  the message object it built: the sender, the receiver and the whole content of the
  request, the id \<open>msg_<now>_<random>\<close>, the time stamp, type \<^verbatim>\<open>text\<close> and
  \<^verbatim>\<open>read: false\<close>. The earlier messages stay in front of it, and the history is the
  same after any run of connects, logins, heartbeats and disconnects that follows, so
  the message is there, in full, when the receiver comes back.
\<close>

theorem C1_message_kept:
  "history (fst (send_message sock cid sender content receiver now stamp rnd s)) cid
     = history s cid @
       [\<lparr>msg_id = ''msg_'' @ dec now @ ''_'' @ rnd, msg_senderId = sender,
         msg_receiverId = receiver, msg_content = content, msg_timestamp = stamp,
         msg_type = Text, msg_read = False\<rparr>]
   \<and> history (fold presence_step evs (fst (send_message sock cid sender content receiver now stamp rnd s))) cid
     = history s cid @
       [\<lparr>msg_id = ''msg_'' @ dec now @ ''_'' @ rnd, msg_senderId = sender,
         msg_receiverId = receiver, msg_content = content, msg_timestamp = stamp,
         msg_type = Text, msg_read = False\<rparr>]"
proof -
  have stored: "history (fst (send_message sock cid sender content receiver now stamp rnd s)) cid
     = history s cid @
       [\<lparr>msg_id = ''msg_'' @ dec now @ ''_'' @ rnd, msg_senderId = sender,
         msg_receiverId = receiver, msg_content = content, msg_timestamp = stamp,
         msg_type = Text, msg_read = False\<rparr>]"
    using history_send_message [of sock cid sender content receiver now stamp rnd s]
    by (simp add: new_message_def)
  have kept: "history (fold presence_step evs (fst (send_message sock cid sender content receiver now stamp rnd s))) cid
     = history (fst (send_message sock cid sender content receiver now stamp rnd s)) cid"
    by (simp add: history_def presence_run_messages)
  from stored kept show ?thesis by simp
qed

text \<open>
  Claim C6, as the code has it. The handler validates nothing: when the sender is not a
  participant of the conversation (or the conversation is unknown), or the content is
  empty, the request is handled like any other and the message is appended to the
  history.
\<close>

theorem C6_send_message_unchecked:
  "\<not> is_participant s cid sender \<or> content = [] \<Longrightarrow>
     history (fst (send_message sock cid sender content receiver now stamp rnd s)) cid
       = history s cid @ [new_message sender receiver content now stamp rnd]"
  by (rule history_send_message)

text \<open>
  Claim C6 fails as stated: \<open>u3\<close> is not a participant of Alice and Bob's conversation and
  sends an empty content; the history, empty before, holds the message afterwards.
\<close>

theorem C6_counterexample:
  "\<not> is_participant friends ''conv_4_u1_u2'' ''u3''
   \<and> history friends ''conv_4_u1_u2'' = []
   \<and> history (fst (send_message ''sC'' ''conv_4_u1_u2'' ''u3'' [] ''u2'' 5 ''t5'' ''0.5'' friends))
        ''conv_4_u1_u2''
      = [new_message ''u3'' ''u2'' [] 5 ''t5'' ''0.5'']"
  unfolding friends_def requested_def both_online_def
  by code_simp

theorem C6_send_message_unchecked_witness:
  "\<not> is_participant friends ''conv_4_u1_u2'' ''u3''
   \<and> history (fst (send_message ''sC'' ''conv_4_u1_u2'' ''u3'' [] ''u2'' 5 ''t5'' ''0.5'' friends))
        ''conv_4_u1_u2''
      = history friends ''conv_4_u1_u2'' @ [new_message ''u3'' ''u2'' [] 5 ''t5'' ''0.5'']"
proof -
  have np: "\<not> is_participant friends ''conv_4_u1_u2'' ''u3''"
    unfolding friends_def requested_def both_online_def by code_simp
  then show ?thesis
    using C6_send_message_unchecked [of friends "''conv_4_u1_u2''" "''u3''" "[]" "''sC''" "''u2''" 5 "''t5''" "''0.5''"]
    by simp
qed

section \<open>Typing indicators\<close>

lemma rooms_user_initial: "rooms_user initial_server"
  by (simp add: rooms_user_def initial_server_def)

lemma rooms_user_login: "rooms_user s \<Longrightarrow> rooms_user (fst (user_login sock ud now s))"
  by (auto simp: rooms_user_def user_login_def socket_join_def Let_def)

lemma rooms_user_disconnect: "rooms_user s \<Longrightarrow> rooms_user (fst (disconnect sock s))"
  by (auto simp: rooms_user_def disconnect_def Let_def split: option.splits prod.splits)

lemma rooms_unchanged:
  "io_rooms (connection sock s) = io_rooms s"
  "io_rooms (heartbeat ud now s) = io_rooms s"
  "io_rooms (fst (send_friend_request sock a b ud now stamp rnd s)) = io_rooms s"
  "io_rooms (fst (accept_friend_request sock rid uid now stamp s)) = io_rooms s"
  "io_rooms (fst (send_message sock cid a content b now stamp rnd s)) = io_rooms s"
  "io_rooms (fst (typing_start sock cid uid uname s)) = io_rooms s"
  "io_rooms (fst (typing_stop sock cid uid s)) = io_rooms s"
  by (simp_all add: connection_def heartbeat_def send_friend_request_def accept_friend_request_def
        send_message_def typing_start_def typing_stop_def Let_def split: option.splits)

lemma typing_reaches_nobody:
  assumes "rooms_user s" and "\<forall>sid \<in> set (io_sockets s). take 5 sid \<noteq> ''conv_''"
  shows "snd (typing_start sock cid uid uname s) = []"
    and "snd (typing_stop sock cid uid s) = []"
proof -
  have "\<not> in_room s sid (''conv_'' @ cid)" if "sid \<in> set (io_sockets s)" for sid
  proof
    assume "in_room s sid (''conv_'' @ cid)"
    then consider "''conv_'' @ cid = sid" | "(sid, ''conv_'' @ cid) \<in> set (io_rooms s)"
      by (auto simp: in_room_def)
    then show False
    proof cases
      case 1
      then have "take 5 sid = ''conv_''" by auto
      with assms(2) that show False by blast
    next
      case 2
      with assms(1) have "take 5 (''conv_'' @ cid) = ''user_''"
        by (auto simp: rooms_user_def)
      then show False by simp
    qed
  qed
  then have "filter (\<lambda>sid. sid \<noteq> sock \<and> in_room s sid (''conv_'' @ cid)) (io_sockets s) = []"
    by (auto simp: filter_empty_conv)
  then show "snd (typing_start sock cid uid uname s) = []"
    and "snd (typing_stop sock cid uid s) = []"
    by (simp_all add: typing_start_def typing_stop_def socket_to_def)
qed

lemma rooms_user_step: "rooms_user s \<Longrightarrow> rooms_user (step ev s)"
  by (cases ev) (simp_all add: rooms_user_login rooms_user_disconnect, simp_all add: rooms_user_def rooms_unchanged)

lemma rooms_user_run: "rooms_user s \<Longrightarrow> rooms_user (fold step evs s)"
  by (induction evs arbitrary: s) (simp_all add: rooms_user_step)

lemma typing_reaches_nobody_reachable:
  assumes "\<forall>sid \<in> set (io_sockets (fold step evs initial_server)). take 5 sid \<noteq> ''conv_''"
  shows "snd (typing_start sock cid uid uname (fold step evs initial_server)) = []"
    and "snd (typing_stop sock cid uid (fold step evs initial_server)) = []"
  using typing_reaches_nobody [OF rooms_user_run [OF rooms_user_initial] assms] by simp_all

text \<open>
  Claim C9, at a concrete input. Alice and Bob are both online and share a conversation:
  a message of Alice's reaches both sockets, but her \<^verbatim>\<open>typing-start\<close> and \<^verbatim>\<open>typing-stop\<close>
  reach no socket at all, since they go to the room \<open>conv_<id>\<close>, which no socket ever
  joins.
\<close>

theorem C9_typing_reaches_nobody:
  "receivers (snd (send_message ''sA'' ''conv_4_u1_u2'' ''u1'' ''hi'' ''u2'' 5 ''t5'' ''0.5'' friends))
     = [''sA'', ''sB'']
   \<and> snd (typing_start ''sA'' ''conv_4_u1_u2'' ''u1'' ''Alice'' friends) = []
   \<and> snd (typing_stop ''sA'' ''conv_4_u1_u2'' ''u1'' friends) = []"
  unfolding friends_def requested_def both_online_def
  by code_simp

section \<open>Duplicate friend requests\<close>

text \<open>
  The server stores every request it is sent. In the context, the check for a request
  already sent searches the requests the current user has received, so it finds nothing.
\<close>

lemma send_friend_request_adds_pending:
  "length (pending_requests
       (get_or_empty (g_friendRequests (fst (send_friend_request sock a b ud now stamp rnd s))) b) a b)
     = Suc (length (pending_requests (get_or_empty (g_friendRequests s) b) a b))"
  by (simp add: send_friend_request_def pending_requests_def get_or_empty_def Let_def update_conv')

lemma existing_request_never_found:
  assumes "\<forall>req \<in> set (st_friendRequests st). fr_receiverId req = ud_id currentUser"
    and "ru_id foundUser \<noteq> ud_id currentUser"
  shows "find (\<lambda>req. fr_receiverId req = ru_id foundUser \<and> fr_senderId req = ud_id currentUser
                     \<and> fr_status req = Pending) (st_friendRequests st) = None"
  using assms by (auto simp: find_None_iff)

text \<open>
  Claim C4, at a concrete input. Alice sends Bob a second request while the first is
  pending. On the server the second one is stored and confirmed to her; in the context
  without a socket the second call returns \<^verbatim>\<open>true\<close> and Bob's stored list holds two
  pending requests from her.
\<close>

theorem C4_second_request_stored:
  "length (pending_requests (get_or_empty (g_friendRequests requested) ''u2'') ''u1'' ''u2'') = 1
   \<and> (''sA'', FriendRequestSent ''u2'')
        \<in> set (snd (send_friend_request ''sA'' ''u1'' ''u2'' alice 4 ''t4'' ''0.75'' requested))
   \<and> length (pending_requests (get_or_empty (g_friendRequests requested_twice) ''u2'') ''u1'' ''u2'') = 2
   \<and> length (pending_requests (get_or_empty (ls_friend_requests sent_once) ''u2'') ''u1'' ''u2'') = 1
   \<and> fst (sendFriendRequest alice False ''#2'' 4 ''t4'' empty_chat sent_once)
   \<and> length (pending_requests (get_or_empty (ls_friend_requests sent_twice) ''u2'') ''u1'' ''u2'') = 2"
  unfolding requested_twice_def requested_def both_online_def sent_twice_def sent_once_def
  by code_simp

section \<open>One conversation per pair\<close>

text \<open>
  In the chat context \<^verbatim>\<open>createConversation\<close> finds the conversation of a pair before it
  creates one: asked again, it returns the same id and changes nothing.
\<close>

lemma createConversation_again:
  "createConversation me other now' stamp' (snd (createConversation me other now stamp st))
     = (fst (createConversation me other now stamp st), snd (createConversation me other now stamp st))"
  by (cases "find (\<lambda>c. other \<in> set (c_participants c) \<and> me \<in> set (c_participants c)) (st_conversations st)")
     (simp_all add: createConversation_def Let_def find_append)

lemma createConversation_existing:
  "find (\<lambda>c. other \<in> set (c_participants c) \<and> me \<in> set (c_participants c)) (st_conversations st) = Some c
     \<Longrightarrow> createConversation me other now stamp st = (c_id c, st)"
  by (simp add: createConversation_def)

lemma createConversation_one_per_pair:
  assumes "length (filter (\<lambda>c. other \<in> set (c_participants c) \<and> me \<in> set (c_participants c)) (st_conversations st)) \<le> 1"
  shows "length (filter (\<lambda>c. other \<in> set (c_participants c) \<and> me \<in> set (c_participants c))
           (st_conversations (snd (createConversation me other now stamp st)))) = 1"
proof (cases "find (\<lambda>c. other \<in> set (c_participants c) \<and> me \<in> set (c_participants c)) (st_conversations st)")
  case None
  then have "filter (\<lambda>c. other \<in> set (c_participants c) \<and> me \<in> set (c_participants c)) (st_conversations st) = []"
    by (auto simp: find_None_iff filter_empty_conv)
  with None show ?thesis
    by (simp add: createConversation_def Let_def)
next
  case (Some c)
  then have "c \<in> set (filter (\<lambda>c. other \<in> set (c_participants c) \<and> me \<in> set (c_participants c)) (st_conversations st))"
    using find_Some_mem [OF Some] by simp
  then have "filter (\<lambda>c. other \<in> set (c_participants c) \<and> me \<in> set (c_participants c)) (st_conversations st) \<noteq> []"
    by (metis empty_iff empty_set)
  then have "0 < length (filter (\<lambda>c. other \<in> set (c_participants c) \<and> me \<in> set (c_participants c)) (st_conversations st))"
    by simp
  with assms have "length (filter (\<lambda>c. other \<in> set (c_participants c) \<and> me \<in> set (c_participants c)) (st_conversations st)) = 1"
    by linarith
  with Some show ?thesis
    by (simp add: createConversation_def)
qed

text \<open>
  Claim C2, at a concrete input. Alice and Bob have each sent the other a request and
  each accepts: the server then holds two conversations for the one pair.
\<close>

theorem C2_accept_creates_second_conversation:
  "map sc_id (conversations_of_pair accepted_twice ''u1'' ''u2'') = [''conv_5_u1_u2'', ''conv_6_u2_u1'']
   \<and> map sc_participants (conversations_of_pair accepted_twice ''u1'' ''u2'')
       = [[''u1'', ''u2''], [''u2'', ''u1'']]"
  unfolding accepted_twice_def crossing_def requested_def both_online_def
  by code_simp

section \<open>Locking and unlocking a conversation\<close>

lemma unlock_wrong:
  "(\<forall>c. find (\<lambda>conv. c_id conv = cid) (st_conversations st) = Some c \<longrightarrow> c_password c \<noteq> Some pw)
     \<Longrightarrow> unlockConversation cid pw st = (False, st)"
  by (auto simp: unlockConversation_def split: option.splits)

lemma unlock_right:
  assumes "find (\<lambda>conv. c_id conv = cid) (st_conversations st) = Some c"
    and "c_password c = Some pw"
  shows "fst (unlockConversation cid pw st)"
    and "find (\<lambda>conv. c_id conv = cid) (st_conversations (snd (unlockConversation cid pw st)))
          = Some (c\<lparr>c_status := Active, c_password := None\<rparr>)"
    and "unlockConversation cid pw' (snd (unlockConversation cid pw st))
          = (False, snd (unlockConversation cid pw st))"
proof -
  let ?f = "\<lambda>conv. if c_id conv = cid then conv\<lparr>c_status := Active, c_password := None\<rparr> else conv"
  have id: "\<And>c. c_id (?f c) = c_id c" by simp
  from assms have u: "unlockConversation cid pw st = (True, st\<lparr>st_conversations := map ?f (st_conversations st)\<rparr>)"
    by (simp add: unlockConversation_def)
  from assms(1) have cid: "c_id c = cid"
    by (auto dest: find_Some_iff [THEN iffD1])
  show "fst (unlockConversation cid pw st)" using u by simp
  show f: "find (\<lambda>conv. c_id conv = cid) (st_conversations (snd (unlockConversation cid pw st)))
          = Some (c\<lparr>c_status := Active, c_password := None\<rparr>)"
    using u assms(1) cid by (simp add: find_map_same_id [of ?f, OF id])
  show "unlockConversation cid pw' (snd (unlockConversation cid pw st))
          = (False, snd (unlockConversation cid pw st))"
    by (rule unlock_wrong) (simp add: f)
qed

lemma unlock_others:
  "c \<in> set (st_conversations st) \<Longrightarrow> c_id c \<noteq> cid \<Longrightarrow>
     c \<in> set (st_conversations (snd (unlockConversation cid pw st)))"
  by (auto simp: unlockConversation_def split: option.splits)

text \<open>
  Claim C5. \<^verbatim>\<open>unlockConversation\<close> is a total function with a boolean result. When the
  password is not the one stored for the conversation (also when none is stored or the
  conversation is unknown) it returns \<^verbatim>\<open>false\<close> and the state is the same. With the
  stored password on a locked conversation it returns \<^verbatim>\<open>true\<close>, the status becomes
  active and the stored password is cleared; after that every further call, with any
  password, returns \<^verbatim>\<open>false\<close> and changes nothing, so the transition happens once.
\<close>

theorem C5_unlock:
  "(stored_password st cid \<noteq> Some pw \<longrightarrow> unlockConversation cid pw st = (False, st))
   \<and> (status_of st cid = Some Locked \<and> stored_password st cid = Some pw \<longrightarrow>
        fst (unlockConversation cid pw st)
        \<and> status_of (snd (unlockConversation cid pw st)) cid = Some Active
        \<and> stored_password (snd (unlockConversation cid pw st)) cid = None
        \<and> (\<forall>pw'. unlockConversation cid pw' (snd (unlockConversation cid pw st))
                    = (False, snd (unlockConversation cid pw st))))"
proof (intro conjI impI)
  assume "stored_password st cid \<noteq> Some pw"
  then show "unlockConversation cid pw st = (False, st)"
    by (intro unlock_wrong) (auto simp: stored_password_def)
next
  assume a: "status_of st cid = Some Locked \<and> stored_password st cid = Some pw"
  then obtain c where c: "find (\<lambda>conv. c_id conv = cid) (st_conversations st) = Some c"
    and pw: "c_password c = Some pw"
    by (auto simp: stored_password_def split: option.splits)
  note r = unlock_right [OF c pw]
  show "fst (unlockConversation cid pw st)" by (rule r(1))
  show "status_of (snd (unlockConversation cid pw st)) cid = Some Active"
    by (simp add: status_of_def r(2))
  show "stored_password (snd (unlockConversation cid pw st)) cid = None"
    by (simp add: stored_password_def r(2))
  show "\<forall>pw'. unlockConversation cid pw' (snd (unlockConversation cid pw st))
                    = (False, snd (unlockConversation cid pw st))"
    using r(3) by blast
qed

theorem C5_unlock_witness:
  "stored_password locked_chat ''conv_7'' \<noteq> Some ''letmein''
   \<and> unlockConversation ''conv_7'' ''letmein'' locked_chat = (False, locked_chat)
   \<and> status_of locked_chat ''conv_7'' = Some Locked
   \<and> stored_password locked_chat ''conv_7'' = Some ''hunter2''
   \<and> fst (unlockConversation ''conv_7'' ''hunter2'' locked_chat)
   \<and> status_of (snd (unlockConversation ''conv_7'' ''hunter2'' locked_chat)) ''conv_7'' = Some Active
   \<and> stored_password (snd (unlockConversation ''conv_7'' ''hunter2'' locked_chat)) ''conv_7'' = None"
proof -
  have s: "status_of locked_chat ''conv_7'' = Some Locked"
    unfolding locked_chat_def with_conversation_def empty_chat_def by code_simp
  have p: "stored_password locked_chat ''conv_7'' = Some ''hunter2''"
    unfolding locked_chat_def with_conversation_def empty_chat_def by code_simp
  have w: "stored_password locked_chat ''conv_7'' \<noteq> Some ''letmein''"
    unfolding p by simp
  from s p w
    C5_unlock [of locked_chat "''conv_7''" "''letmein''"]
    C5_unlock [of locked_chat "''conv_7''" "''hunter2''"]
  show ?thesis by simp
qed

text \<open>
  Claim C8 fails as stated: after \<^verbatim>\<open>lockConversation\<close> with the password \<open>hunter2\<close>,
  the query for the locked conversations returns the conversation with that very text in
  its \<^verbatim>\<open>password\<close> field.
\<close>

theorem C8_counterexample:
  "map c_password (getConversationsByStatus Locked locked_chat) = [Some ''hunter2'']"
  unfolding locked_chat_def with_conversation_def empty_chat_def by code_simp

text \<open>
  Claim C8, as the code has it. \<^verbatim>\<open>lockConversation\<close> stores the password text as it
  was given, and \<^verbatim>\<open>getConversationsByStatus\<close> returns the locked conversation with
  the password in it.
\<close>

theorem C8_password_kept_as_given:
  "find (\<lambda>conv. c_id conv = cid) (st_conversations st) = Some c \<Longrightarrow>
     stored_password (lockConversation cid pw st) cid = Some pw
     \<and> c\<lparr>c_status := Locked, c_password := Some pw\<rparr>
         \<in> set (getConversationsByStatus Locked (lockConversation cid pw st))"
proof -
  assume c: "find (\<lambda>conv. c_id conv = cid) (st_conversations st) = Some c"
  let ?f = "\<lambda>conv. if c_id conv = cid then conv\<lparr>c_status := Locked, c_password := Some pw\<rparr> else conv"
  have id: "\<And>c. c_id (?f c) = c_id c" by simp
  from find_Some_mem [OF c] have m: "c \<in> set (st_conversations st)" and cid: "c_id c = cid"
    by simp_all
  have "find (\<lambda>conv. c_id conv = cid) (st_conversations (lockConversation cid pw st)) = Some (?f c)"
    using c by (simp add: lockConversation_def find_map_same_id [of ?f, OF id])
  then have 1: "stored_password (lockConversation cid pw st) cid = Some pw"
    using cid by (simp add: stored_password_def)
  from m have "?f c \<in> set (st_conversations (lockConversation cid pw st))"
    by (simp add: lockConversation_def)
  then have 2: "c\<lparr>c_status := Locked, c_password := Some pw\<rparr>
         \<in> set (getConversationsByStatus Locked (lockConversation cid pw st))"
    using cid by (simp add: getConversationsByStatus_def)
  from 1 2 show ?thesis by simp
qed

theorem C8_password_kept_as_given_witness:
  "find (\<lambda>conv. c_id conv = ''conv_7'') (st_conversations with_conversation)
     = Some \<lparr>c_id = ''conv_7'', c_participants = [''u1'', ''u2''], c_lastMessage = None,
          c_unreadCount = 0, c_updatedAt = ''t7'', c_status = Active, c_password = None\<rparr>
   \<and> stored_password (lockConversation ''conv_7'' ''hunter2'' with_conversation) ''conv_7''
       = Some ''hunter2''
   \<and> \<lparr>c_id = ''conv_7'', c_participants = [''u1'', ''u2''], c_lastMessage = None,
          c_unreadCount = 0, c_updatedAt = ''t7'', c_status = Locked, c_password = Some ''hunter2''\<rparr>
       \<in> set (getConversationsByStatus Locked (lockConversation ''conv_7'' ''hunter2'' with_conversation))"
proof -
  have f: "find (\<lambda>conv. c_id conv = ''conv_7'') (st_conversations with_conversation)
     = Some \<lparr>c_id = ''conv_7'', c_participants = [''u1'', ''u2''], c_lastMessage = None,
          c_unreadCount = 0, c_updatedAt = ''t7'', c_status = Active, c_password = None\<rparr>"
    unfolding with_conversation_def empty_chat_def by code_simp
  from C8_password_kept_as_given [OF f, of "''hunter2''"] f show ?thesis
    by simp
qed

section \<open>Presence\<close>

lemma p2_after_heartbeat:
  "uid \<noteq> ''update'' \<Longrightarrow>
     fst (getUserOnlineStatus_p2 (status_heartbeat uid t ls) uid now)
       = (if now - t \<le> 10000 then Online else Offline)"
  by (simp add: getUserOnlineStatus_p2_def status_heartbeat_def getItem_or_def update_conv' Let_def)

lemma p2_update_id_reads_offline:
  "10000 < now \<Longrightarrow>
     fst (getUserOnlineStatus_p2 (status_heartbeat ''update'' t ls) ''update'' now) = Offline"
  by (simp add: getUserOnlineStatus_p2_def status_heartbeat_def getItem_or_def update_conv' Let_def)

lemma ctx_after_update:
  "getUserOnlineStatus (updateUserOnlineStatus uid t last_seen) uid now
     = (if now - t < 300000 then Online else if now - t < 1800000 then Away else Offline)"
  by (simp add: getUserOnlineStatus_def updateUserOnlineStatus_def update_conv' Let_def)

text \<open>
  Claim C7 fails as stated for \<^verbatim>\<open>getUserOnlineStatus\<close> of \<open>ChatContext.tsx\<close>: the last
  sign of life of \<open>u1\<close> is written at 0, 4 and 8 seconds; 11 seconds after the last
  one the user still reads as online.
\<close>

theorem C7_counterexample:
  "getUserOnlineStatus
     (updateUserOnlineStatus ''u1'' 8000 (updateUserOnlineStatus ''u1'' 4000 (updateUserOnlineStatus ''u1'' 0 [])))
     ''u1'' 19000 = Online"
  by (simp add: ctx_after_update)

text \<open>
  Claim C7, as the code has it. In \<open>part_002\<close>, after a heartbeat at time \<open>t\<close> the user
  reads online as long as at most 10000 ms have passed and offline after that, so
  offline 11 seconds after the last heartbeat (for every user id but the text \<open>update\<close>,
  whose status key is the heartbeat's own trigger key). In \<open>ChatContext.tsx\<close>, after the
  last write at time \<open>t\<close> the user reads online for less than 5 minutes, away for less
  than 30 minutes and offline from then on, so online 11 seconds after the last write.
\<close>

theorem C7_presence_thresholds:
  "(uid \<noteq> ''update'' \<longrightarrow>
      fst (getUserOnlineStatus_p2 (status_heartbeat uid t ls) uid now)
        = (if now - t \<le> 10000 then Online else Offline)
      \<and> fst (getUserOnlineStatus_p2 (status_heartbeat uid t ls) uid (t + 11000)) = Offline)
   \<and> getUserOnlineStatus (updateUserOnlineStatus uid t last_seen) uid now
     = (if now - t < 300000 then Online else if now - t < 1800000 then Away else Offline)
   \<and> getUserOnlineStatus (updateUserOnlineStatus uid t last_seen) uid (t + 11000) = Online"
  by (simp add: p2_after_heartbeat ctx_after_update)

theorem C7_presence_thresholds_witness:
  "''u1'' \<noteq> ''update''
   \<and> fst (getUserOnlineStatus_p2 (status_heartbeat ''u1'' 8000 []) ''u1'' 18000) = Online
   \<and> fst (getUserOnlineStatus_p2 (status_heartbeat ''u1'' 8000 []) ''u1'' 19000) = Offline
   \<and> getUserOnlineStatus (updateUserOnlineStatus ''u1'' 8000 []) ''u1'' 19000 = Online
   \<and> getUserOnlineStatus (updateUserOnlineStatus ''u1'' 8000 []) ''u1'' 308000 = Away
   \<and> getUserOnlineStatus (updateUserOnlineStatus ''u1'' 8000 []) ''u1'' 1808000 = Offline"
  using C7_presence_thresholds [of "''u1''" 8000 "[]" 18000 "[]"]
    C7_presence_thresholds [of "''u1''" 8000 "[]" 19000 "[]"]
    C7_presence_thresholds [of "''u1''" 8000 "[]" 308000 "[]"]
    C7_presence_thresholds [of "''u1''" 8000 "[]" 1808000 "[]"]
  by simp

end
